theory Spec2Isabelle
  imports Complex_Main "HOL-Library.Multiset"
begin

section \<open>The R-tree of \<open>ch2/arty/tree.py\<close>\<close>

text \<open>
  The development embeds \<open>BaseTree\<close>, \<open>CartesianMixin\<close> and \<open>LinearSplitMixin\<close>
  (class \<open>CLRTree\<close>). Coordinates are exact rationals: they stand for Python's
  integers and for floats without rounding. Stored values and the value filter are
  \<open>'v option\<close>, with \<open>None\<close> for Python's \<open>None\<close>.
\<close>

subsection \<open>Errors and match types\<close>

datatype error =
    MinTooHigh            \<comment> \<open>\<open>Exception('Min number of entries in a node is too high')\<close>\<close>
  | MinTooLow             \<comment> \<open>\<open>Exception('Min number of entries in a node is too low')\<close>\<close>
  | HeightError           \<comment> \<open>\<open>Exception('Cannot add node at height ...')\<close>\<close>
  | FailedToDelete        \<comment> \<open>\<open>Exception('Failed to delete ...')\<close>\<close>
  | EmptyRoot             \<comment> \<open>\<open>Exception('Emtpy root (and size ...)')\<close>\<close>
  | TooFewChildren        \<comment> \<open>\<open>Exception('Too few children at height ...')\<close>\<close>
  | TooManyChildren       \<comment> \<open>\<open>Exception('Too many children at height ...')\<close>\<close>
  | BadMBR                \<comment> \<open>\<open>Exception('Bad MBR at height ...')\<close>\<close>
  | UnexpectedLeaves      \<comment> \<open>\<open>Exception('Unexpected number of leaves ...')\<close>\<close>
  | ZeroDivisionError
  | TypeError
  | IndexError
  | RecursionError        \<comment> \<open>the recursion budget of the model is used up\<close>

datatype match_type = EQUAL | CONTAINED | CONTAINS | INTERSECT

subsection \<open>Geometry (\<open>CartesianMixin\<close>)\<close>

type_synonym mbr = "rat \<times> rat \<times> rat \<times> rat"

definition normalize_mbr :: "rat \<Rightarrow> rat \<Rightarrow> rat \<Rightarrow> rat \<Rightarrow> mbr" where
  "normalize_mbr x1 y1 x2 y2 = (min x1 x2, min y1 y2, max x1 x2, max y1 y2)"

fun intersect :: "mbr \<Rightarrow> mbr \<Rightarrow> bool" where
  "intersect (x1, y1, x2, y2) (X1, Y1, X2, Y2) \<longleftrightarrow> x1 \<le> X2 \<and> x2 \<ge> X1 \<and> y1 \<le> Y2 \<and> y2 \<ge> Y1"

fun contains :: "mbr \<Rightarrow> mbr \<Rightarrow> bool" where
  "contains (x1, y1, x2, y2) (X1, Y1, X2, Y2) \<longleftrightarrow> x1 \<le> X1 \<and> x2 \<ge> X2 \<and> y1 \<le> Y1 \<and> y2 \<ge> Y2"

fun area :: "mbr \<Rightarrow> rat" where
  "area (x1, y1, x2, y2) = (x2 - x1) * (y2 - y1)"

fun merge :: "mbr \<Rightarrow> mbr \<Rightarrow> mbr" where
  "merge (x1, y1, x2, y2) (X1, Y1, X2, Y2) = (min x1 X1, min y1 Y1, max x2 X2, max y2 Y2)"

subsection \<open>Nodes and the store\<close>

text \<open>
  A node is the tuple \<open>(height, data)\<close>; \<open>data\<close> is a Python list, mutated in place
  and shared between the tree and a running query generator, so it is an address into a
  store of lists. An entry is the tuple \<open>(mbr, contents)\<close>, where the contents are a
  value (in a leaf) or a child node.
\<close>

datatype 'v contents = Val "'v option" | Child nat nat

type_synonym 'v entry = "mbr \<times> 'v contents"

type_synonym 'v store = "'v entry list list"

record 'v tree =
  t_max :: int
  t_min :: int
  t_root :: "(nat \<times> nat) option"
  t_size :: int
  t_store :: "'v store"

subsection \<open>Construction (\<open>BaseTree.__init__\<close>)\<close>

text \<open>\<open>if not min_entries: min_entries = max_entries // 2\<close>: both \<open>None\<close> and \<open>0\<close> are false.\<close>

definition effective_min :: "int \<Rightarrow> int option \<Rightarrow> int" where
  "effective_min max_entries min_entries =
     (case min_entries of
        None \<Rightarrow> max_entries div 2
      | Some m \<Rightarrow> if m = 0 then max_entries div 2 else m)"

definition init :: "int \<Rightarrow> int option \<Rightarrow> error + 'v tree" where
  "init max_entries min_entries =
     (let m = effective_min max_entries min_entries in
      if m > max_entries div 2 then Inl MinTooHigh
      else if m < 1 then Inl MinTooLow
      else Inr \<lparr>t_max = max_entries, t_min = m, t_root = None, t_size = 0, t_store = []\<rparr>)"

subsection \<open>\<open>BaseTree._calculate_mbr\<close>\<close>

fun calculate_mbr_from :: "mbr option \<Rightarrow> (mbr \<times> 'c) list \<Rightarrow> mbr option" where
  "calculate_mbr_from tot [] = tot"
| "calculate_mbr_from tot ((m, _) # nodes) =
     calculate_mbr_from (case tot of None \<Rightarrow> Some m | Some t \<Rightarrow> Some (merge t m)) nodes"

definition calculate_mbr :: "(mbr \<times> 'c) list \<Rightarrow> mbr option" where
  "calculate_mbr nodes = calculate_mbr_from None nodes"

subsection \<open>\<open>BaseTree._best\<close>\<close>

text \<open>
  The loop variable \<open>data\<close> of \<open>_best\<close> is the second component of an entry. At both
  call sites that is a node tuple \<open>(height, data)\<close>, whose \<open>len\<close> is 2; a stored value
  is taken to have no \<open>len\<close>.
\<close>

fun py_len :: "'v contents \<Rightarrow> error + nat" where
  "py_len (Child h a) = Inr 2"
| "py_len (Val v) = Inl TypeError"

text \<open>The state of the loop: \<open>i_best, mbr_best, area_best, delta_area_best, len_best\<close>.\<close>

type_synonym best_state = "nat \<times> mbr \<times> rat \<times> rat \<times> nat"

fun best_step :: "nat \<Rightarrow> mbr \<Rightarrow> best_state option \<Rightarrow> nat \<Rightarrow> 'v entry \<Rightarrow> error + best_state" where
  "best_step height mbr None i_child (mbr_child, d) =
     (let mbr_best = merge mbr_child mbr in
      case py_len d of
        Inl e \<Rightarrow> Inl e
      | Inr l \<Rightarrow> Inr (i_child, mbr_best, area mbr_best, area mbr_best - area mbr_child, l))"
| "best_step height mbr (Some (i_best, mbr_best, area_best, delta_area_best, len_best)) i_child
      (mbr_child, d) =
     (let mbr_merge = merge mbr_child mbr;
          area_merge = area mbr_merge;
          delta_area_merge = area_merge - area mbr_child;
          better =
            (if delta_area_merge < delta_area_best \<or>
                (delta_area_merge = delta_area_best \<and> area_merge < area_best)
             then Inr True
             else if delta_area_merge = delta_area_best \<and> area_merge = area_best \<and> height \<noteq> 0
             then (case py_len d of Inl e \<Rightarrow> Inl e | Inr l \<Rightarrow> Inr (l < len_best))
             else Inr False)
      in case better of
           Inl e \<Rightarrow> Inl e
         | Inr True \<Rightarrow>
             (case py_len d of
                Inl e \<Rightarrow> Inl e
              | Inr l \<Rightarrow> Inr (i_child, mbr_merge, area_merge, delta_area_merge, l))
         | Inr False \<Rightarrow> Inr (i_best, mbr_best, area_best, delta_area_best, len_best))"

fun best_from :: "nat \<Rightarrow> mbr \<Rightarrow> nat \<Rightarrow> best_state option \<Rightarrow> 'v entry list
    \<Rightarrow> error + best_state option" where
  "best_from height mbr i_child st [] = Inr st"
| "best_from height mbr i_child st (e # rest) =
     (case best_step height mbr st i_child e of
        Inl err \<Rightarrow> Inl err
      | Inr st' \<Rightarrow> best_from height mbr (Suc i_child) (Some st') rest)"

text \<open>\<open>return i_best, mbr_best\<close>, which is \<open>(None, None)\<close> for an empty list.\<close>

definition best :: "'v entry list \<Rightarrow> mbr \<Rightarrow> nat \<Rightarrow> error + (nat \<times> mbr) option" where
  "best data mbr height =
     (case best_from height mbr 0 None data of
        Inl e \<Rightarrow> Inl e
      | Inr None \<Rightarrow> Inr None
      | Inr (Some (i_best, mbr_best, _)) \<Rightarrow> Inr (Some (i_best, mbr_best)))"

subsection \<open>Seed selection (\<open>CartesianMixin.__extremes\<close>, \<open>_pick_linear_seeds\<close>)\<close>

text \<open>The lists \<open>index\<close> and \<open>extreme\<close> have four components each.\<close>

type_synonym extremes_state = "(nat \<times> nat \<times> nat \<times> nat) \<times> mbr"

fun extremes_step :: "nat \<Rightarrow> mbr \<Rightarrow> extremes_state \<Rightarrow> extremes_state" where
  "extremes_step i (m0, m1, m2, m3) ((i0, i1, i2, i3), (e0, e1, e2, e3)) =
     ((if m0 > e0 then i else i0, if m1 > e1 then i else i1,
       if m2 < e2 then i else i2, if m3 < e3 then i else i3),
      (if m0 > e0 then m0 else e0, if m1 > e1 then m1 else e1,
       if m2 < e2 then m2 else e2, if m3 < e3 then m3 else e3))"

fun extremes_from :: "nat \<Rightarrow> extremes_state option \<Rightarrow> (mbr \<times> 'c) list \<Rightarrow> extremes_state option" where
  "extremes_from i st [] = st"
| "extremes_from i st ((m, _) # data) =
     extremes_from (Suc i)
       (if i = 0 then Some ((0, 0, 0, 0), m)
        else (case st of None \<Rightarrow> None | Some s \<Rightarrow> Some (extremes_step i m s)))
       data"

definition extremes :: "(mbr \<times> 'c) list \<Rightarrow> extremes_state option" where
  "extremes data = extremes_from 0 None data"

text \<open>
  \<open>root_data\<close> is the list \<open>self._root[1]\<close> as it is when the split runs. The division
  \<open>x / n\<close> raises when \<open>n\<close> is zero, for integers and for floats. For a nonzero
  divisor Python's quotient is a float, rounded also for integer coordinates, and the
  quotient here is exact: where two normalized separations differ by less than the
  rounding, the seeds Python picks can differ from the ones of this definition. The
  theorems below evaluate the division at a zero divisor only.
\<close>

definition py_div :: "rat \<Rightarrow> rat \<Rightarrow> error + rat" where
  "py_div x n = (if n = 0 then Inl ZeroDivisionError else Inr (x / n))"

definition pick_linear_seeds :: "(mbr \<times> 'c) list \<Rightarrow> (mbr \<times> 'c) list \<Rightarrow> error + (nat \<times> nat)" where
  "pick_linear_seeds root_data data =
     (case calculate_mbr root_data of
        None \<Rightarrow> Inl TypeError
      | Some (g0, g1, g2, g3) \<Rightarrow>
          (let norm_x = g2 - g0; norm_y = g3 - g1 in
           case extremes data of
             None \<Rightarrow> Inl TypeError
           | Some ((i0, i1, i2, i3), (x0, x1, x2, x3)) \<Rightarrow>
               (case py_div x0 norm_x of Inl e \<Rightarrow> Inl e | Inr e0 \<Rightarrow>
                case py_div x1 norm_y of Inl e \<Rightarrow> Inl e | Inr e1 \<Rightarrow>
                case py_div x2 norm_x of Inl e \<Rightarrow> Inl e | Inr e2 \<Rightarrow>
                case py_div x3 norm_y of Inl e \<Rightarrow> Inl e | Inr e3 \<Rightarrow>
                  if e2 - e0 > e3 - e1 \<and> i0 \<noteq> i2 then Inr (i0, i2)
                  else if e2 - e0 < e3 - e1 \<and> i1 \<noteq> i3 then Inr (i1, i3)
                  else Inr (0, 1))))"

subsection \<open>Python lists\<close>

definition py_get :: "'a list \<Rightarrow> nat \<Rightarrow> error + 'a" where
  "py_get xs i = (if i < length xs then Inr (xs ! i) else Inl IndexError)"

definition py_del :: "'a list \<Rightarrow> nat \<Rightarrow> error + 'a list" where
  "py_del xs i = (if i < length xs then Inr (take i xs @ drop (Suc i) xs) else Inl IndexError)"

text \<open>A reference always points to a list of the store; other addresses do not occur.\<close>

definition deref :: "'v store \<Rightarrow> nat \<Rightarrow> 'v entry list" where
  "deref s a = (if a < length s then s ! a else [])"

definition collect :: "(error + 'a list) list \<Rightarrow> error + 'a list" where
  "collect rs = foldr (\<lambda>r acc. case r of Inl e \<Rightarrow> Inl e
                                 | Inr xs \<Rightarrow> (case acc of Inl e \<Rightarrow> Inl e | Inr ys \<Rightarrow> Inr (xs @ ys)))
                  rs (Inr [])"

subsection \<open>Queries (\<open>BaseTree._get_node\<close>)\<close>

fun descend_test :: "match_type \<Rightarrow> mbr \<Rightarrow> mbr \<Rightarrow> bool" where
  "descend_test match mbr_node mbr \<longleftrightarrow>
     (match \<in> {EQUAL, CONTAINED} \<and> contains mbr_node mbr) \<or>
     (match \<in> {CONTAINS, INTERSECT} \<and> intersect mbr_node mbr)"

fun leaf_test :: "match_type \<Rightarrow> mbr \<Rightarrow> mbr \<Rightarrow> bool" where
  "leaf_test match mbr_node mbr \<longleftrightarrow>
     (match = EQUAL \<and> mbr = mbr_node) \<or>
     (match = CONTAINED \<and> contains mbr_node mbr) \<or>
     (match = CONTAINS \<and> contains mbr mbr_node) \<or>
     (match = INTERSECT \<and> intersect mbr mbr_node)"

text \<open>\<open>value is None or value == contents_node\<close>\<close>

fun value_test :: "'v option \<Rightarrow> 'v contents \<Rightarrow> bool" where
  "value_test v contents_node \<longleftrightarrow> v = None \<or> Val v = contents_node"

fun get_node :: "nat \<Rightarrow> 'v store \<Rightarrow> nat \<times> nat \<Rightarrow> mbr \<Rightarrow> 'v option \<Rightarrow> match_type
    \<Rightarrow> error + ('v contents \<times> mbr) list" where
  "get_node 0 s node mbr v match = Inl RecursionError"
| "get_node (Suc d) s (height, data) mbr v match =
     collect (map (\<lambda>(mbr_node, contents_node).
       if height \<noteq> 0 then
         (if descend_test match mbr_node mbr
          then (case contents_node of
                  Child h a \<Rightarrow> get_node d s (h, a) mbr v match
                | Val _ \<Rightarrow> Inl TypeError)
          else Inr [])
       else
         (if value_test v contents_node \<and> leaf_test match mbr_node mbr
          then Inr [(contents_node, mbr_node)]
          else Inr []))
       (deref s data))"

fun leaves :: "nat \<Rightarrow> 'v store \<Rightarrow> nat \<times> nat \<Rightarrow> error + 'v entry list" where
  "leaves 0 s node = Inl RecursionError"
| "leaves (Suc d) s (height, data) =
     collect (map (\<lambda>(mbr, child).
       if height \<noteq> 0 then
         (case child of
            Child h a \<Rightarrow> leaves d s (h, a)
          | Val _ \<Rightarrow> Inl TypeError)
       else Inr [(mbr, child)])
       (deref s data))"

subsection \<open>Splitting (\<open>LinearSplitMixin._split\<close>)\<close>

text \<open>
  The two groups \<open>split[0]\<close> and \<open>split[1]\<close> are entries \<open>(mbr, (height, list))\<close> over two
  new lists. The loop works on the lists \<open>nodes\<close>, \<open>split[0][1][1]\<close> and \<open>split[1][1][1]\<close>,
  which nothing else reads while it runs; they are written back to the store when it ends.
  The state of the loop is \<open>(nodes, (mbr0, list0), (mbr1, list1))\<close>, \<open>a0\<close> and \<open>a1\<close> are the
  addresses of the new lists.
\<close>

type_synonym 'v split_state = "'v entry list \<times> (mbr \<times> 'v entry list) \<times> (mbr \<times> 'v entry list)"

fun split_loop :: "int \<Rightarrow> nat \<Rightarrow> nat \<Rightarrow> nat \<Rightarrow> 'v split_state \<Rightarrow> error option \<times> 'v split_state" where
  "split_loop tmin height a0 a1 (nodes, (m0, l0), (m1, l1)) =
     (if nodes = [] then (None, (nodes, (m0, l0), (m1, l1)))
      else if int (length nodes) < tmin \<and> int (length l0) + int (length nodes) = tmin then
        (case calculate_mbr (l0 @ nodes) of
           None \<Rightarrow> (Some TypeError, (nodes, (m0, l0 @ nodes), (m1, l1)))
         | Some m \<Rightarrow> (None, (nodes, (m, l0 @ nodes), (m1, l1))))
      else if int (length nodes) < tmin \<and> int (length l1) + int (length nodes) = tmin then
        (case calculate_mbr (l1 @ nodes) of
           None \<Rightarrow> (Some TypeError, (nodes, (m0, l0), (m1, l1 @ nodes)))
         | Some m \<Rightarrow> (None, (nodes, (m0, l0), (m, l1 @ nodes))))
      else
        (let node = last nodes; nodes' = butlast nodes in
         case best [(m0, Child height a0 :: 'v contents), (m1, Child height a1)] (fst node) height of
           Inl e \<Rightarrow> (Some e, (nodes', (m0, l0), (m1, l1)))
         | Inr None \<Rightarrow> (Some TypeError, (nodes', (m0, l0), (m1, l1)))
         | Inr (Some (index, m)) \<Rightarrow>
             if index = 0 then split_loop tmin height a0 a1 (nodes', (m, l0 @ [node]), (m1, l1))
             else if index = 1 then split_loop tmin height a0 a1 (nodes', (m0, l0), (m, l1 @ [node]))
             else (Some IndexError, (nodes', (m0, l0), (m1, l1)))))"

text \<open>
  \<open>split t height nodes\<close>: \<open>nodes\<close> is the address of the overflowing list. The result is
  the list \<open>split\<close> and the tree with its store as the call leaves it, also when it raises.
\<close>

definition split :: "'v tree \<Rightarrow> nat \<Rightarrow> nat \<Rightarrow> (error + 'v entry list) \<times> 'v tree" where
  "split t height nodes =
     (let s = t_store t; ns = deref s nodes in
      case t_root t of
        None \<Rightarrow> (Inl TypeError, t)
      | Some (_, root_data) \<Rightarrow>
          (case pick_linear_seeds (deref s root_data) ns of
             Inl e \<Rightarrow> (Inl e, t)
           | Inr (i, j) \<Rightarrow>
               (case py_get ns i of Inl e \<Rightarrow> (Inl e, t) | Inr ni \<Rightarrow>
                case py_get ns j of Inl e \<Rightarrow> (Inl e, t) | Inr nj \<Rightarrow>
                  (let a0 = length s; a1 = Suc (length s); s1 = s @ [[ni], [nj]] in
                   case py_del ns (max i j) of
                     Inl e \<Rightarrow> (Inl e, t\<lparr>t_store := s1\<rparr>)
                   | Inr ns1 \<Rightarrow>
                       (case py_del ns1 (min i j) of
                          Inl e \<Rightarrow> (Inl e, t\<lparr>t_store := s1[nodes := ns1]\<rparr>)
                        | Inr ns2 \<Rightarrow>
                            (case split_loop (t_min t) height a0 a1 (ns2, (fst ni, [ni]), (fst nj, [nj])) of
                               (r, (ns3, (m0, l0), (m1, l1))) \<Rightarrow>
                                 (let t' = t\<lparr>t_store := s1[nodes := ns3, a0 := l0, a1 := l1]\<rparr> in
                                  case r of
                                    Some e \<Rightarrow> (Inl e, t')
                                  | None \<Rightarrow> (Inr [(m0, Child height a0), (m1, Child height a1)], t'))))))))"

subsection \<open>Insertion (\<open>BaseTree._add_node\<close>, \<open>_add_normalized_mbr\<close>, \<open>add_point\<close>, \<open>add_box\<close>)\<close>

definition set_list :: "'v tree \<Rightarrow> nat \<Rightarrow> 'v entry list \<Rightarrow> 'v tree" where
  "set_list t a xs = t\<lparr>t_store := (t_store t)[a := xs]\<rparr>"

text \<open>
  \<open>add_node d t node target value mbr\<close>: \<open>d\<close> bounds the depth of the recursion, as
  Python's recursion limit does. The result is \<open>None\<close> or the list returned by \<open>_split\<close>.
  \<open>if split:\<close> is false for \<open>None\<close> and for an empty list.
\<close>

definition after_append :: "'v tree \<Rightarrow> nat \<Rightarrow> nat \<Rightarrow> (error + 'v entry list option) \<times> 'v tree" where
  "after_append t height data =
     (if int (length (deref (t_store t) data)) \<le> t_max t then (Inr None, t)
      else (case split t height data of
              (Inl e, t') \<Rightarrow> (Inl e, t')
            | (Inr sp, t') \<Rightarrow> (Inr (Some sp), t')))"

fun add_node :: "nat \<Rightarrow> 'v tree \<Rightarrow> nat \<times> nat \<Rightarrow> nat \<Rightarrow> 'v contents \<Rightarrow> mbr
    \<Rightarrow> (error + 'v entry list option) \<times> 'v tree" where
  "add_node 0 t node target v mbr = (Inl RecursionError, t)"
| "add_node (Suc d) t (height, data) target v mbr =
     (if height \<noteq> target then
        (case best (deref (t_store t) data) mbr height of
           Inl e \<Rightarrow> (Inl e, t)
         | Inr None \<Rightarrow> (Inl TypeError, t)
         | Inr (Some (i_best, mbr_best)) \<Rightarrow>
             (case py_get (deref (t_store t) data) i_best of
                Inl e \<Rightarrow> (Inl e, t)
              | Inr (_, child) \<Rightarrow>
                  (let t1 = set_list t data ((deref (t_store t) data)[i_best := (mbr_best, child)]) in
                   case child of
                     Val _ \<Rightarrow> (Inl TypeError, t1)
                   | Child h a \<Rightarrow>
                       (case add_node d t1 (h, a) target v mbr of
                          (Inl e, t2) \<Rightarrow> (Inl e, t2)
                        | (Inr None, t2) \<Rightarrow> (Inr None, t2)
                        | (Inr (Some sp), t2) \<Rightarrow>
                            if sp = [] then (Inr None, t2)
                            else (case py_del (deref (t_store t2) data) i_best of
                                    Inl e \<Rightarrow> (Inl e, t2)
                                  | Inr xs \<Rightarrow> after_append (set_list t2 data (xs @ sp)) height data)))))
      else after_append (set_list t data (deref (t_store t) data @ [(mbr, v)])) height data)"

text \<open>
  \<open>add_normalized_mbr d t target mbr value\<close>. A new root list (the list \<open>split\<close>, or the
  one-entry list of the first insertion) is allocated at the end of the store.
\<close>

definition add_normalized_mbr :: "nat \<Rightarrow> 'v tree \<Rightarrow> nat \<Rightarrow> mbr \<Rightarrow> 'v contents
    \<Rightarrow> (error + unit) \<times> 'v tree" where
  "add_normalized_mbr d t target mbr v =
     (case t_root t of
        Some (root_height, root_data) \<Rightarrow>
          if target > root_height then (Inl HeightError, t)
          else (case add_node d t (root_height, root_data) target v mbr of
                  (Inl e, t') \<Rightarrow> (Inl e, t')
                | (Inr None, t') \<Rightarrow> (Inr (), t')
                | (Inr (Some sp), t') \<Rightarrow>
                    (case sp of
                       [] \<Rightarrow> (Inr (), t')
                     | (_, Val _) # _ \<Rightarrow> (Inl TypeError, t')
                     | (_, Child h _) # _ \<Rightarrow>
                         (Inr (), t'\<lparr>t_root := Some (h + 1, length (t_store t')),
                                    t_store := t_store t' @ [sp]\<rparr>)))
      | None \<Rightarrow>
          if target \<noteq> 0 then (Inl HeightError, t)
          else (Inr (), t\<lparr>t_root := Some (0, length (t_store t)),
                         t_store := t_store t @ [[(mbr, v)]]\<rparr>))"

definition add_point :: "nat \<Rightarrow> 'v tree \<Rightarrow> 'v option \<Rightarrow> rat \<Rightarrow> rat \<Rightarrow> (error + unit) \<times> 'v tree" where
  "add_point d t v x y =
     (case add_normalized_mbr d t 0 (x, y, x, y) (Val v) of
        (Inl e, t') \<Rightarrow> (Inl e, t')
      | (Inr _, t') \<Rightarrow> (Inr (), t'\<lparr>t_size := t_size t' + 1\<rparr>))"

definition add_box :: "nat \<Rightarrow> 'v tree \<Rightarrow> 'v option \<Rightarrow> rat \<Rightarrow> rat \<Rightarrow> rat \<Rightarrow> rat
    \<Rightarrow> (error + unit) \<times> 'v tree" where
  "add_box d t v x1 y1 x2 y2 =
     (case add_normalized_mbr d t 0 (normalize_mbr x1 y1 x2 y2) (Val v) of
        (Inl e, t') \<Rightarrow> (Inl e, t')
      | (Inr _, t') \<Rightarrow> (Inr (), t'\<lparr>t_size := t_size t' + 1\<rparr>))"

subsection \<open>Deletion of one entry (\<open>BaseTree._delete_node\<close>)\<close>

text \<open>
  An orphan to reinsert is the tuple \<open>(height, mbr, contents)\<close>. The result of
  \<open>_delete_node\<close> is \<open>None\<close> or the pair \<open>(delete, inserts)\<close>.

  \<open>delete_entries\<close> is the loop \<open>for i, (mbr_node, contents_node) in enumerate(data)\<close>,
  at index \<open>i\<close> with the entries from \<open>i\<close> on: the list is not changed while the loop
  goes on, since every branch that changes it returns. \<open>self._calculate_mbr(*children)\<close>
  is \<open>None\<close> only for an empty list, which a child that stays in the tree is not when
  \<open>min_entries\<close> is at least 1.
\<close>

type_synonym 'v insert = "nat \<times> mbr \<times> 'v contents"

fun delete_node :: "nat \<Rightarrow> 'v tree \<Rightarrow> nat \<times> nat \<Rightarrow> mbr \<Rightarrow> 'v option
      \<Rightarrow> (error + (bool \<times> 'v insert list) option) \<times> 'v tree"
  and delete_entries :: "nat \<Rightarrow> 'v tree \<Rightarrow> nat \<Rightarrow> nat \<Rightarrow> nat \<Rightarrow> 'v entry list \<Rightarrow> mbr \<Rightarrow> 'v option
      \<Rightarrow> (error + (bool \<times> 'v insert list) option) \<times> 'v tree" where
  "delete_node 0 t node mbr v = (Inl RecursionError, t)"
| "delete_node (Suc d) t (height, data) mbr v =
     delete_entries d t height data 0 (deref (t_store t) data) mbr v"
| "delete_entries d t height data i [] mbr v = (Inr None, t)"
| "delete_entries d t height data i ((mbr_node, contents_node) # rest) mbr v =
     (if height \<noteq> 0 then
        (if contains mbr_node mbr then
           (case contents_node of
              Val _ \<Rightarrow> (Inl TypeError, t)
            | Child h a \<Rightarrow>
                (case delete_node d t (h, a) mbr v of
                   (Inl e, t1) \<Rightarrow> (Inl e, t1)
                 | (Inr None, t1) \<Rightarrow> delete_entries d t1 height data (Suc i) rest mbr v
                 | (Inr (Some (delete, inserts)), t1) \<Rightarrow>
                     if delete then
                       (case py_del (deref (t_store t1) data) i of
                          Inl e \<Rightarrow> (Inl e, t1)
                        | Inr xs \<Rightarrow>
                            if int (length xs) < t_min t1
                            then (Inr (Some (True, inserts @ map (\<lambda>(m, c). (height, m, c)) xs)),
                                  set_list t1 data xs)
                            else (Inr (Some (False, inserts)), set_list t1 data xs))
                     else
                       (case py_get (deref (t_store t1) data) i of
                          Inl e \<Rightarrow> (Inl e, t1)
                        | Inr (old_mbr, Val _) \<Rightarrow> (Inl TypeError, t1)
                        | Inr (old_mbr, Child height_children children) \<Rightarrow>
                            (case calculate_mbr (deref (t_store t1) children) of
                               None \<Rightarrow> (Inl TypeError, t1)
                             | Some new_mbr \<Rightarrow>
                                 (Inr (Some (False, inserts)),
                                  set_list t1 data ((deref (t_store t1) data)
                                    [i := (new_mbr, Child height_children children)]))))))
         else delete_entries d t height data (Suc i) rest mbr v)
      else
        (if mbr_node = mbr \<and> value_test v contents_node then
           (case py_del (deref (t_store t) data) i of
              Inl e \<Rightarrow> (Inl e, t)
            | Inr xs \<Rightarrow>
                if int (length xs) < t_min t
                then (Inr (Some (True, map (\<lambda>(m, c). (0, m, c)) xs)), set_list t data xs)
                else (Inr (Some (False, [])), set_list t data xs))
         else delete_entries d t height data (Suc i) rest mbr v))"

subsection \<open>Reinsertion (\<open>BaseTree._reinsert\<close>)\<close>

text \<open>
  The leaves of an orphan that is too high are read from lists that are no longer part
  of the tree, so no insertion changes them: they are read first and inserted one by one.
\<close>

fun add_all :: "nat \<Rightarrow> 'v tree \<Rightarrow> 'v entry list \<Rightarrow> (error + unit) \<times> 'v tree" where
  "add_all d t [] = (Inr (), t)"
| "add_all d t ((mbr, v) # rest) =
     (case add_normalized_mbr d t 0 mbr v of
        (Inl e, t') \<Rightarrow> (Inl e, t')
      | (Inr _, t') \<Rightarrow> add_all d t' rest)"

fun reinsert_from :: "nat \<Rightarrow> nat \<Rightarrow> 'v tree \<Rightarrow> 'v insert list \<Rightarrow> (error + unit) \<times> 'v tree" where
  "reinsert_from d max_height t [] = (Inr (), t)"
| "reinsert_from d max_height t ((height, mbr, c) # rest) =
     (case (if height > max_height
            then (case c of
                    Val _ \<Rightarrow> (Inl TypeError, t)
                  | Child h a \<Rightarrow>
                      (case leaves d (t_store t) (h, a) of
                         Inl e \<Rightarrow> (Inl e, t)
                       | Inr ls \<Rightarrow> add_all d t ls))
            else add_normalized_mbr d t height mbr c) of
        (Inl e, t') \<Rightarrow> (Inl e, t')
      | (Inr _, t') \<Rightarrow> reinsert_from d max_height t' rest)"

definition reinsert :: "nat \<Rightarrow> 'v tree \<Rightarrow> 'v insert list \<Rightarrow> (error + unit) \<times> 'v tree" where
  "reinsert d t inserts =
     reinsert_from d (case t_root t of Some (h, _) \<Rightarrow> h | None \<Rightarrow> 0) t inserts"

subsection \<open>The query generator while the tree changes\<close>

text \<open>
  \<open>_delete_normalized_mbr\<close> consumes the generator \<open>_get_node\<close> one match at a time and
  changes the tree in between. A suspended generator is the stack of its nested
  \<open>_get_node\<close> calls, innermost first; each holds its node \<open>(height, data)\<close> and the index
  \<open>i\<close> of the list iterator of \<open>for mbr_node, contents_node in data\<close>, which reads
  \<open>data[i]\<close> from the list as it is when the generator is resumed, and stops when \<open>i\<close>
  has reached its length.

  \<open>scan\<close> runs one \<open>_get_node\<close> call from index \<open>i\<close> up to its next match.
\<close>

type_synonym frame = "nat \<times> nat \<times> nat"

datatype 'v gen_result = Found "'v contents \<times> mbr" "frame list" | Exhausted | Failed error

function scan :: "nat \<Rightarrow> 'v store \<Rightarrow> nat \<times> nat \<Rightarrow> nat \<Rightarrow> mbr \<Rightarrow> 'v option \<Rightarrow> match_type
    \<Rightarrow> 'v gen_result" where
  "scan d s (height, data) i mbr v match =
     (if d = 0 then Failed RecursionError
      else if i \<ge> length (deref s data) then Exhausted
      else (case deref s data ! i of (mbr_node, contents_node) \<Rightarrow>
        if height \<noteq> 0 then
          (if descend_test match mbr_node mbr
           then (case contents_node of
                   Val _ \<Rightarrow> Failed TypeError
                 | Child h a \<Rightarrow>
                     (case scan (d - 1) s (h, a) 0 mbr v match of
                        Found item frames \<Rightarrow> Found item (frames @ [(height, data, Suc i)])
                      | Exhausted \<Rightarrow> scan d s (height, data) (Suc i) mbr v match
                      | Failed e \<Rightarrow> Failed e))
           else scan d s (height, data) (Suc i) mbr v match)
        else
          (if value_test v contents_node \<and> leaf_test match mbr_node mbr
           then Found (contents_node, mbr_node) [(height, data, Suc i)]
           else scan d s (height, data) (Suc i) mbr v match)))"
  by pat_completeness auto
termination
  by (relation "measures [\<lambda>(d, s, (h, a), i, _). d, \<lambda>(d, s, (h, a), i, _). length (deref s a) - i]")
     auto

text \<open>\<open>gen_next\<close> resumes the generator: the innermost call first, then the calls around it.\<close>

fun gen_next :: "nat \<Rightarrow> 'v store \<Rightarrow> frame list \<Rightarrow> mbr \<Rightarrow> 'v option \<Rightarrow> match_type \<Rightarrow> 'v gen_result" where
  "gen_next d s [] mbr v match = Exhausted"
| "gen_next d s ((height, data, i) # st) mbr v match =
     (case scan (d - length st) s (height, data) i mbr v match of
        Found item frames \<Rightarrow> Found item (frames @ st)
      | Exhausted \<Rightarrow> gen_next d s st mbr v match
      | Failed e \<Rightarrow> Failed e)"

subsection \<open>Deletion (\<open>BaseTree._delete_normalized_mbr\<close>, \<open>delete_point\<close>, \<open>delete_box\<close>)\<close>

text \<open>
  \<open>if self._root and len(self._root[1]) == 1 and self._root[0]: self._root = self._root[1][0][1]\<close>.
  The only child of an internal root is a node.
\<close>

definition collapse :: "'v tree \<Rightarrow> error + 'v tree" where
  "collapse t =
     (case t_root t of
        None \<Rightarrow> Inr t
      | Some (height, data) \<Rightarrow>
          (case deref (t_store t) data of
             [(_, c)] \<Rightarrow>
               if height \<noteq> 0
               then (case c of
                       Child h a \<Rightarrow> Inr (t\<lparr>t_root := Some (h, a)\<rparr>)
                     | Val _ \<Rightarrow> Inl TypeError)
               else Inr t
           | _ \<Rightarrow> Inr t))"

text \<open>
  The loop \<open>for _, mbr_match in self._get_normalized_box(mbr, value, match)\<close>. \<open>n\<close> bounds
  the number of iterations: the result is \<open>None\<close> when the loop has not ended within \<open>n\<close>.
  \<open>st\<close> is the suspended generator and \<open>cnt\<close> the counter \<open>count\<close>.
\<close>

fun delete_loop :: "nat \<Rightarrow> nat \<Rightarrow> 'v tree \<Rightarrow> frame list \<Rightarrow> mbr \<Rightarrow> 'v option \<Rightarrow> match_type \<Rightarrow> int
    \<Rightarrow> ((error + int) \<times> 'v tree) option" where
  "delete_loop 0 d t st mbr v match cnt = None"
| "delete_loop (Suc n) d t st mbr v match cnt =
     (case gen_next d (t_store t) st mbr v match of
        Exhausted \<Rightarrow> Some (Inr cnt, t)
      | Failed e \<Rightarrow> Some (Inl e, t)
      | Found (_, mbr_match) st' \<Rightarrow>
          (case t_root t of
             None \<Rightarrow> Some (Inl TypeError, t)
           | Some node \<Rightarrow>
               (case delete_node d t node mbr_match v of
                  (Inl e, t1) \<Rightarrow> Some (Inl e, t1)
                | (Inr None, t1) \<Rightarrow> Some (Inl FailedToDelete, t1)
                | (Inr (Some (delete, inserts)), t1) \<Rightarrow>
                    (case reinsert d (if delete then t1\<lparr>t_root := None\<rparr> else t1) inserts of
                       (Inl e, t2) \<Rightarrow> Some (Inl e, t2)
                     | (Inr _, t2) \<Rightarrow>
                         (case collapse (t2\<lparr>t_size := t_size t2 - 1\<rparr>) of
                            Inl e \<Rightarrow> Some (Inl e, t2\<lparr>t_size := t_size t2 - 1\<rparr>)
                          | Inr t3 \<Rightarrow> delete_loop n d t3 st' mbr v match (cnt + 1))))))"

text \<open>\<open>_get_normalized_box\<close> starts the generator at the root, if there is one.\<close>

definition start :: "'v tree \<Rightarrow> frame list" where
  "start t = (case t_root t of None \<Rightarrow> [] | Some (height, data) \<Rightarrow> [(height, data, 0)])"

definition delete_normalized_mbr :: "nat \<Rightarrow> nat \<Rightarrow> 'v tree \<Rightarrow> mbr \<Rightarrow> 'v option \<Rightarrow> match_type
    \<Rightarrow> ((error + int) \<times> 'v tree) option" where
  "delete_normalized_mbr n d t mbr v match = delete_loop n d t (start t) mbr v match 0"

definition delete_point :: "nat \<Rightarrow> nat \<Rightarrow> 'v tree \<Rightarrow> rat \<Rightarrow> rat \<Rightarrow> 'v option \<Rightarrow> match_type
    \<Rightarrow> ((error + int) \<times> 'v tree) option" where
  "delete_point n d t x y v match = delete_normalized_mbr n d t (x, y, x, y) v match"

definition delete_box :: "nat \<Rightarrow> nat \<Rightarrow> 'v tree \<Rightarrow> rat \<Rightarrow> rat \<Rightarrow> rat \<Rightarrow> rat \<Rightarrow> 'v option \<Rightarrow> match_type
    \<Rightarrow> ((error + int) \<times> 'v tree) option" where
  "delete_box n d t x1 y1 x2 y2 v match =
     delete_normalized_mbr n d t (normalize_mbr x1 y1 x2 y2) v match"

subsection \<open>Public queries (\<open>get_point\<close>, \<open>get_box\<close>)\<close>

text \<open>The sequence a query yields when the tree is not changed while it is read.\<close>

definition get_normalized_box :: "nat \<Rightarrow> 'v tree \<Rightarrow> mbr \<Rightarrow> 'v option \<Rightarrow> match_type
    \<Rightarrow> error + ('v contents \<times> mbr) list" where
  "get_normalized_box d t mbr v match =
     (case t_root t of None \<Rightarrow> Inr [] | Some node \<Rightarrow> get_node d (t_store t) node mbr v match)"

definition get_point :: "nat \<Rightarrow> 'v tree \<Rightarrow> rat \<Rightarrow> rat \<Rightarrow> 'v option \<Rightarrow> match_type
    \<Rightarrow> error + ('v contents \<times> mbr) list" where
  "get_point d t x y v match = get_normalized_box d t (x, y, x, y) v match"

definition get_box :: "nat \<Rightarrow> 'v tree \<Rightarrow> rat \<Rightarrow> rat \<Rightarrow> rat \<Rightarrow> rat \<Rightarrow> 'v option \<Rightarrow> match_type
    \<Rightarrow> error + ('v contents \<times> mbr) list" where
  "get_box d t x1 y1 x2 y2 v match = get_normalized_box d t (normalize_mbr x1 y1 x2 y2) v match"

subsection \<open>Consistency check (\<open>assert_consistent\<close>)\<close>

definition sum_results :: "(error + int) list \<Rightarrow> error + int" where
  "sum_results rs = foldr (\<lambda>r acc. case r of Inl e \<Rightarrow> Inl e
                                 | Inr n \<Rightarrow> (case acc of Inl e \<Rightarrow> Inl e | Inr m \<Rightarrow> Inr (n + m)))
                      rs (Inr 0)"

text \<open>
  \<open>node != self._root\<close> compares the tuples; a node below the root has a smaller height,
  so the comparison is the one of the heights and the lists' identities.
\<close>

fun assert_consistent_node :: "nat \<Rightarrow> 'v tree \<Rightarrow> (nat \<times> nat) option \<Rightarrow> error + int" where
  "assert_consistent_node d t None = Inr 0"
| "assert_consistent_node 0 t (Some node) = Inl RecursionError"
| "assert_consistent_node (Suc d) t (Some (height, data)) =
     (let xs = deref (t_store t) data in
      if int (length xs) < t_min t \<and> Some (height, data) \<noteq> t_root t then Inl TooFewChildren
      else if int (length xs) > t_max t then Inl TooManyChildren
      else if height \<noteq> 0 then
        sum_results (map (\<lambda>(mbr, child).
          case child of
            Val _ \<Rightarrow> Inl TypeError
          | Child height_child data_child \<Rightarrow>
              if calculate_mbr (deref (t_store t) data_child) \<noteq> Some mbr then Inl BadMBR
              else assert_consistent_node d t (Some (height_child, data_child))) xs)
      else Inr (int (length xs)))"

definition assert_consistent :: "nat \<Rightarrow> 'v tree \<Rightarrow> error + unit" where
  "assert_consistent d t =
     (if t_size t \<noteq> 0 \<and> t_root t = None then Inl EmptyRoot
      else (case assert_consistent_node d t (t_root t) of
              Inl e \<Rightarrow> Inl e
            | Inr n \<Rightarrow> if n \<noteq> t_size t then Inl UnexpectedLeaves else Inr ()))"

subsection \<open>Invariant 2 as a predicate\<close>

text \<open>
  \<open>tight d s node\<close>: down to depth \<open>d\<close> below \<open>node\<close>, every entry of an internal node
  holds a child node and its box is \<open>_calculate_mbr\<close> of the child's entries (the test
  of \<open>_assert_consistent\<close>). \<open>normalized\<close>: the box is one that \<open>_normalize_mbr\<close> returns.
\<close>

fun tight :: "nat \<Rightarrow> 'v store \<Rightarrow> nat \<times> nat \<Rightarrow> bool" where
  "tight 0 s node \<longleftrightarrow> True"
| "tight (Suc d) s (height, data) \<longleftrightarrow>
     list_all (\<lambda>(mbr, child).
       height = 0 \<or>
       (case child of
          Child h a \<Rightarrow> calculate_mbr (deref s a) = Some mbr \<and> tight d s (h, a)
        | Val _ \<Rightarrow> False))
       (deref s data)"

fun normalized :: "mbr \<Rightarrow> bool" where
  "normalized (x1, y1, x2, y2) \<longleftrightarrow> x1 \<le> x2 \<and> y1 \<le> y2"

section \<open>Properties\<close>

subsection \<open>Construction\<close>

text \<open>
  C7 (counterexample). An explicitly supplied \<open>min_entries = 0\<close> lies outside
  \<open>1 \<le> min_entries \<le> max_entries / 2\<close>, yet construction with \<open>max_entries = 8\<close>
  succeeds: \<open>not min_entries\<close> holds for \<open>0\<close>, so the default \<open>8 // 2 = 4\<close> replaces it.
\<close>

theorem init_zero_min_counterexample:
  "(init 8 (Some 0) :: error + unit tree) =
     Inr \<lparr>t_max = 8, t_min = 4, t_root = None, t_size = 0, t_store = []\<rparr>
   \<and> \<not> (1 \<le> (0::int) \<and> 2 * (0::int) \<le> 8)"
  by (simp add: init_def effective_min_def)

text \<open>
  C7 (amended). Construction fails exactly when the effective \<open>min_entries\<close> violates
  \<open>1 \<le> min_entries \<le> max_entries / 2\<close>, where the effective value is the supplied
  one if it is given and nonzero, and \<open>max_entries // 2\<close> when it is omitted or zero.
  A tree that is constructed holds the effective value, satisfies the bound, and is empty.
\<close>

theorem init_fails_iff:
  "((\<exists>e. (init M mo :: error + 'v tree) = Inl e) \<longleftrightarrow>
      \<not> (1 \<le> effective_min M mo \<and> 2 * effective_min M mo \<le> M))
   \<and> (\<forall>t. (init M mo :: error + 'v tree) = Inr t \<longrightarrow>
        t_min t = effective_min M mo \<and> t_max t = M \<and>
        1 \<le> t_min t \<and> 2 * t_min t \<le> t_max t \<and> t_root t = None \<and> t_size t = 0)"
  by (auto simp: init_def Let_def)

theorem init_fails_iff_witness:
  "(init 8 (Some 3) :: error + unit tree) =
     Inr \<lparr>t_max = 8, t_min = 3, t_root = None, t_size = 0, t_store = []\<rparr>
   \<and> t_min \<lparr>t_max = 8, t_min = 3, t_root = None, t_size = 0, t_store = ([] :: unit store)\<rparr> = 3
   \<and> (\<exists>e. (init 8 (Some 5) :: error + unit tree) = Inl e)"
proof -
  have a: "(init 8 (Some 3) :: error + unit tree) =
     Inr \<lparr>t_max = 8, t_min = 3, t_root = None, t_size = 0, t_store = []\<rparr>"
    by (simp add: init_def effective_min_def)
  have b: "\<not> (1 \<le> effective_min 8 (Some 5) \<and> 2 * effective_min 8 (Some 5) \<le> (8::int))"
    by (simp add: effective_min_def)
  from init_fails_iff [of 8 "Some 5", where 'v = unit] b
  have c: "\<exists>e. (init 8 (Some 5) :: error + unit tree) = Inl e" by blast
  from init_fails_iff [of 8 "Some 3", where 'v = unit] a
  have "t_min \<lparr>t_max = 8, t_min = 3, t_root = None, t_size = 0, t_store = ([] :: unit store)\<rparr>
        = effective_min 8 (Some 3)" by blast
  then show ?thesis using a c by (simp add: effective_min_def)
qed

subsection \<open>Seed selection\<close>

text \<open>
  C6 (failing input). The root is a leaf holding the three points \<open>(0,0)\<close>, \<open>(0,1)\<close>,
  \<open>(0,2)\<close>, so the global extent has zero width. Seed selection divides the extremes
  by that width before it reaches the degenerate branch, and raises
  \<open>ZeroDivisionError\<close> instead of returning \<open>(0, 1)\<close>.
\<close>

theorem pick_linear_seeds_zero_width:
  "pick_linear_seeds
     [((0, 0, 0, 0), Val (Some a)), ((0, 1, 0, 1), Val (Some b)), ((0, 2, 0, 2), Val (Some c))]
     [((0, 0, 0, 0), Val (Some a)), ((0, 1, 0, 1), Val (Some b)), ((0, 2, 0, 2), Val (Some c))]
   = Inl ZeroDivisionError"
  by (simp add: pick_linear_seeds_def calculate_mbr_def extremes_def py_div_def)

subsection \<open>Choice of the best entry\<close>

text \<open>
  C5 (failing input). \<open>max_entries = 4\<close>, \<open>min_entries = 2\<close>. The root has height 1 and
  two entries with the same box \<open>(0,0,4,4)\<close>; the first child holds three entries, the
  second two. For the box \<open>(1,1,2,2)\<close> the area increase and the merged area are tied.
  \<open>len\<close> is taken of the node tuple and is 2 for both entries, so the first entry stays
  the best one, and \<open>add_box\<close> puts the new entry into the first child, which holds
  more entries than the second.
\<close>

theorem best_ignores_child_count:
  "best [((0, 0, 4, 4), Child 0 0 :: string contents), ((0, 0, 4, 4), Child 0 1)] (1, 1, 2, 2) 1
     = Inr (Some (0, (0, 0, 4, 4)))
   \<and> add_box 9
       \<lparr>t_max = 4, t_min = 2, t_root = Some (1, 2), t_size = 5,
        t_store = [[((0, 0, 4, 4), Val (Some ''a'')), ((1, 1, 2, 2), Val (Some ''b'')),
                    ((2, 2, 3, 3), Val (Some ''c''))],
                   [((0, 0, 4, 4), Val (Some ''d'')), ((1, 1, 3, 3), Val (Some ''e''))],
                   [((0, 0, 4, 4), Child 0 0), ((0, 0, 4, 4), Child 0 1)]]\<rparr>
       (Some ''x'') 1 1 2 2
     = (Inr (),
        \<lparr>t_max = 4, t_min = 2, t_root = Some (1, 2), t_size = 6,
         t_store = [[((0, 0, 4, 4), Val (Some ''a'')), ((1, 1, 2, 2), Val (Some ''b'')),
                     ((2, 2, 3, 3), Val (Some ''c'')), ((1, 1, 2, 2), Val (Some ''x''))],
                    [((0, 0, 4, 4), Val (Some ''d'')), ((1, 1, 3, 3), Val (Some ''e''))],
                    [((0, 0, 4, 4), Child 0 0), ((0, 0, 4, 4), Child 0 1)]]\<rparr>)"
  by code_simp

subsection \<open>Splitting and insertion when the root box has zero width\<close>

text \<open>
  C2 (failing input). \<open>max_entries = 2\<close>, \<open>min_entries = 1\<close>; the root is a leaf whose list
  holds \<open>max_entries + 1 = 3\<close> points on the vertical line \<open>x = 0\<close>. \<open>_split\<close> on this
  list returns no pairs: it raises \<open>ZeroDivisionError\<close> in seed selection and leaves
  the list as it is.
\<close>

theorem split_zero_width:
  "split
     \<lparr>t_max = 2, t_min = 1, t_root = Some (0, 0), t_size = 2,
      t_store = [[((0, 0, 0, 0), Val (Some ''a'')), ((0, 1, 0, 1), Val (Some ''b'')),
                  ((0, 2, 0, 2), Val (Some ''c''))]]\<rparr> 0 0
   = (Inl ZeroDivisionError,
      \<lparr>t_max = 2, t_min = 1, t_root = Some (0, 0), t_size = 2,
       t_store = [[((0, 0, 0, 0), Val (Some ''a'')), ((0, 1, 0, 1), Val (Some ''b'')),
                   ((0, 2, 0, 2), Val (Some ''c''))]]\<rparr>)"
  by code_simp

text \<open>
  C8 (failing input). The tree holds the points \<open>(0,0)\<close> and \<open>(0,1)\<close> in a root leaf of
  height 0. Internal insertion of \<open>(0,2)\<close> at target height 0 raises, although the
  target height does not exceed the height of the tree and the tree is not empty; the
  root list has already been extended when it does.
\<close>

theorem add_normalized_mbr_zero_width:
  "add_normalized_mbr 9
     \<lparr>t_max = 2, t_min = 1, t_root = Some (0, 0), t_size = 2,
      t_store = [[((0, 0, 0, 0), Val (Some ''a'')), ((0, 1, 0, 1), Val (Some ''b''))]]\<rparr>
     0 (0, 2, 0, 2) (Val (Some ''c''))
   = (Inl ZeroDivisionError,
      \<lparr>t_max = 2, t_min = 1, t_root = Some (0, 0), t_size = 2,
       t_store = [[((0, 0, 0, 0), Val (Some ''a'')), ((0, 1, 0, 1), Val (Some ''b'')),
                   ((0, 2, 0, 2), Val (Some ''c''))]]\<rparr>)"
  by code_simp

subsection \<open>The invariants after public calls\<close>

text \<open>
  C1 (failing input). On the tree constructed with \<open>max_entries = 2\<close> (so
  \<open>min_entries = 1\<close>), \<open>add_point('a', 0, 0)\<close> and \<open>add_point('b', 0, 1)\<close> succeed and
  \<open>add_point('c', 0, 2)\<close> raises \<open>ZeroDivisionError\<close>. Afterwards the root holds three
  entries, more than \<open>max_entries\<close>, the tracked size is 2, and \<open>assert_consistent\<close>
  raises.
\<close>

theorem add_point_breaks_invariants:
  "(init 2 None :: error + string tree)
       = Inr \<lparr>t_max = 2, t_min = 1, t_root = None, t_size = 0, t_store = []\<rparr>
   \<and> add_point 9 \<lparr>t_max = 2, t_min = 1, t_root = None, t_size = 0, t_store = []\<rparr>
        (Some ''a'') 0 0
       = (Inr (), \<lparr>t_max = 2, t_min = 1, t_root = Some (0, 0), t_size = 1,
                   t_store = [[((0, 0, 0, 0), Val (Some ''a''))]]\<rparr>)
   \<and> add_point 9 \<lparr>t_max = 2, t_min = 1, t_root = Some (0, 0), t_size = 1,
                   t_store = [[((0, 0, 0, 0), Val (Some ''a''))]]\<rparr>
        (Some ''b'') 0 1
       = (Inr (), \<lparr>t_max = 2, t_min = 1, t_root = Some (0, 0), t_size = 2,
                   t_store = [[((0, 0, 0, 0), Val (Some ''a'')),
                               ((0, 1, 0, 1), Val (Some ''b''))]]\<rparr>)
   \<and> add_point 9 \<lparr>t_max = 2, t_min = 1, t_root = Some (0, 0), t_size = 2,
                   t_store = [[((0, 0, 0, 0), Val (Some ''a'')),
                               ((0, 1, 0, 1), Val (Some ''b''))]]\<rparr>
        (Some ''c'') 0 2
       = (Inl ZeroDivisionError,
          \<lparr>t_max = 2, t_min = 1, t_root = Some (0, 0), t_size = 2,
           t_store = [[((0, 0, 0, 0), Val (Some ''a'')), ((0, 1, 0, 1), Val (Some ''b'')),
                       ((0, 2, 0, 2), Val (Some ''c''))]]\<rparr>)
   \<and> assert_consistent 9
        \<lparr>t_max = 2, t_min = 1, t_root = Some (0, 0), t_size = 2,
         t_store = [[((0, 0, 0, 0), Val (Some ''a'')), ((0, 1, 0, 1), Val (Some ''b'')),
                     ((0, 2, 0, 2), Val (Some ''c''))]]\<rparr>
       = Inl TooManyChildren"
  by code_simp

subsection \<open>Deletion and the matches of the query\<close>

text \<open>
  C3 (failing input). On the tree constructed with \<open>max_entries = 2\<close>, the point \<open>(0,0)\<close>
  is stored twice, with the values \<open>'a'\<close> and \<open>'b'\<close>. \<open>get_point(0, 0)\<close> yields both
  pairs, yet \<open>delete_point(0, 0)\<close> returns 1, and \<open>get_point(0, 0)\<close> still yields the
  pair of \<open>'b'\<close> afterwards: deleting the first entry moves the second one to index 0,
  and the list iterator of the generator, now at index 1, is past the end.
\<close>

theorem delete_point_skips_match:
  "add_point 9 \<lparr>t_max = 2, t_min = 1, t_root = None, t_size = 0, t_store = []\<rparr>
        (Some ''a'') 0 0
       = (Inr (), \<lparr>t_max = 2, t_min = 1, t_root = Some (0, 0), t_size = 1,
                   t_store = [[((0, 0, 0, 0), Val (Some ''a''))]]\<rparr>)
   \<and> add_point 9 \<lparr>t_max = 2, t_min = 1, t_root = Some (0, 0), t_size = 1,
                   t_store = [[((0, 0, 0, 0), Val (Some ''a''))]]\<rparr>
        (Some ''b'') 0 0
       = (Inr (), \<lparr>t_max = 2, t_min = 1, t_root = Some (0, 0), t_size = 2,
                   t_store = [[((0, 0, 0, 0), Val (Some ''a'')),
                               ((0, 0, 0, 0), Val (Some ''b''))]]\<rparr>)
   \<and> get_point 9 \<lparr>t_max = 2, t_min = 1, t_root = Some (0, 0), t_size = 2,
                   t_store = [[((0, 0, 0, 0), Val (Some ''a'')),
                               ((0, 0, 0, 0), Val (Some ''b''))]]\<rparr>
        0 0 None EQUAL
       = Inr [(Val (Some ''a''), (0, 0, 0, 0)), (Val (Some ''b''), (0, 0, 0, 0))]
   \<and> delete_point 9 9 \<lparr>t_max = 2, t_min = 1, t_root = Some (0, 0), t_size = 2,
                   t_store = [[((0, 0, 0, 0), Val (Some ''a'')),
                               ((0, 0, 0, 0), Val (Some ''b''))]]\<rparr>
        0 0 None EQUAL
       = Some (Inr 1, \<lparr>t_max = 2, t_min = 1, t_root = Some (0, 0), t_size = 1,
                        t_store = [[((0, 0, 0, 0), Val (Some ''b''))]]\<rparr>)
   \<and> get_point 9 \<lparr>t_max = 2, t_min = 1, t_root = Some (0, 0), t_size = 1,
                   t_store = [[((0, 0, 0, 0), Val (Some ''b''))]]\<rparr>
        0 0 None EQUAL
       = Inr [(Val (Some ''b''), (0, 0, 0, 0))]"
  by code_simp

subsection \<open>Queries\<close>

lemma contains_refl: "contains b b"
  by (cases b) simp

lemma contains_trans: "contains a b \<Longrightarrow> contains b c \<Longrightarrow> contains a c"
  by (cases a, cases b, cases c) auto

lemma contains_merge_left: "contains (merge a b) a"
  by (cases a, cases b) auto

lemma contains_merge_right: "contains (merge a b) b"
  by (cases a, cases b) auto

lemma calculate_mbr_from_contains:
  "calculate_mbr_from tot xs = Some b \<Longrightarrow>
     (\<forall>t. tot = Some t \<longrightarrow> contains b t) \<and> (\<forall>x\<in>set xs. contains b (fst x))"
proof (induction xs arbitrary: tot)
  case Nil
  then show ?case by (simp add: contains_refl)
next
  case (Cons x xs)
  obtain m c where x: "x = (m, c)" by (cases x)
  let ?tot' = "case tot of None \<Rightarrow> Some m | Some t \<Rightarrow> Some (merge t m)"
  from Cons.prems x have "calculate_mbr_from ?tot' xs = Some b" by simp
  from Cons.IH [OF this]
  have ih: "\<forall>t. ?tot' = Some t \<longrightarrow> contains b t" "\<forall>x\<in>set xs. contains b (fst x)" by auto
  show ?case
  proof (cases tot)
    case None
    with ih x show ?thesis by simp
  next
    case (Some t)
    with ih have "contains b (merge t m)" by simp
    then have "contains b t" "contains b m"
      using contains_trans contains_merge_left contains_merge_right by blast+
    with ih x Some show ?thesis by simp
  qed
qed

lemma calculate_mbr_contains:
  "calculate_mbr xs = Some b \<Longrightarrow> x \<in> set xs \<Longrightarrow> contains b (fst x)"
  using calculate_mbr_from_contains [of None xs b] by (simp add: calculate_mbr_def)

lemma collect_Nil: "collect [] = Inr []"
  by (simp add: collect_def)

lemma collect_Cons:
  "collect (r # rs) =
     (case r of Inl e \<Rightarrow> Inl e
      | Inr xs \<Rightarrow> (case collect rs of Inl e \<Rightarrow> Inl e | Inr ys \<Rightarrow> Inr (xs @ ys)))"
  by (cases r) (simp_all add: collect_def)

lemma collect_map_elem:
  "collect (map f xs) = Inr all \<Longrightarrow> x \<in> set xs \<Longrightarrow> \<exists>ys. f x = Inr ys \<and> set ys \<subseteq> set all"
proof (induction xs arbitrary: all)
  case Nil
  then show ?case by simp
next
  case (Cons a xs)
  from Cons.prems(1) obtain ya yr where a: "f a = Inr ya" and r: "collect (map f xs) = Inr yr"
    and all: "all = ya @ yr"
    by (auto simp: collect_Cons split: sum.splits)
  show ?case
  proof (cases "x = a")
    case True
    with a all show ?thesis by auto
  next
    case False
    with Cons.prems(2) have "x \<in> set xs" by simp
    from Cons.IH [OF r this] all show ?thesis by auto
  qed
qed

lemma collect_map_transfer:
  assumes "collect (map f xs) = Inr all"
    and "\<And>x ys. x \<in> set xs \<Longrightarrow> f x = Inr ys \<Longrightarrow> g x = Inr (h ys)"
    and "\<And>a b. h (a @ b) = h a @ h b" and "h [] = []"
  shows "collect (map g xs) = Inr (h all)"
  using assms(1,2)
proof (induction xs arbitrary: all)
  case Nil
  then show ?case by (simp add: collect_Nil assms(4))
next
  case (Cons a xs)
  from Cons.prems(1) obtain ya yr where a: "f a = Inr ya" and r: "collect (map f xs) = Inr yr"
    and all: "all = ya @ yr"
    by (auto simp: collect_Cons split: sum.splits)
  have "g a = Inr (h ya)" using Cons.prems(2) a by simp
  moreover have "collect (map g xs) = Inr (h yr)"
    using Cons.IH [OF r] Cons.prems(2) by simp
  ultimately show ?case by (simp add: collect_Cons all assms(3))
qed


lemma collect_map_mem:
  "collect (map f xs) = Inr all \<Longrightarrow> y \<in> set all \<Longrightarrow> \<exists>x\<in>set xs. \<exists>ys. f x = Inr ys \<and> y \<in> set ys"
proof (induction xs arbitrary: all)
  case Nil
  then show ?case by (simp add: collect_Nil)
next
  case (Cons a xs)
  from Cons.prems(1) obtain ya yr where a: "f a = Inr ya" and r: "collect (map f xs) = Inr yr"
    and all: "all = ya @ yr"
    by (auto simp: collect_Cons split: sum.splits)
  from Cons.prems(2) all consider "y \<in> set ya" | "y \<in> set yr" by auto
  then show ?case
  proof cases
    case 1
    with a show ?thesis by auto
  next
    case 2
    from Cons.IH [OF r 2] show ?thesis by auto
  qed
qed

lemma collect_singletons: "collect (map (\<lambda>x. Inr [x]) xs) = Inr xs"
  by (induction xs) (simp_all add: collect_Nil collect_Cons)

lemma leaves_leaf: "leaves (Suc d) s (0, a) = Inr (deref s a)"
proof -
  have "(\<lambda>(mbr, child). Inr [(mbr, child)] :: error + 'a entry list) = (\<lambda>x. Inr [x])"
    by (simp add: fun_eq_iff)
  then show ?thesis by (simp add: collect_singletons)
qed

lemma leaves_contained:
  "tight d s (h, a) \<Longrightarrow> leaves d s (h, a) = Inr lvs \<Longrightarrow> calculate_mbr (deref s a) = Some b
     \<Longrightarrow> y \<in> set lvs \<Longrightarrow> contains b (fst y)"
proof (induction d arbitrary: h a lvs b)
  case 0
  then show ?case by simp
next
  case (Suc d)
  show ?case
  proof (cases "h = 0")
    case True
    from Suc.prems(2) have "lvs = deref s a" unfolding True leaves_leaf by simp
    with Suc.prems(3,4) show ?thesis by (simp add: calculate_mbr_contains)
  next
    case False
    let ?f = "\<lambda>(mbr, child). case child of Child h a \<Rightarrow> leaves d s (h, a) | Val _ \<Rightarrow> Inl TypeError"
    from Suc.prems(2) False have "collect (map ?f (deref s a)) = Inr lvs" by simp
    from collect_map_mem [OF this Suc.prems(4)]
    obtain x ys where x: "x \<in> set (deref s a)" and fx: "?f x = Inr ys" and y: "y \<in> set ys"
      by blast
    obtain bi ci where xe: "x = (bi, ci)" by (cases x)
    from fx xe obtain hi ai where ci: "ci = Child hi ai" and lv: "leaves d s (hi, ai) = Inr ys"
      by (cases ci) auto
    from Suc.prems(1) False x xe ci
    have t: "calculate_mbr (deref s ai) = Some bi" "tight d s (hi, ai)"
      by (auto simp: list_all_iff)
    from Suc.IH [OF t(2) lv t(1) y] have "contains bi (fst y)" .
    moreover from calculate_mbr_contains [OF Suc.prems(3) x] xe have "contains b bi" by simp
    ultimately show ?thesis by (rule contains_trans [rotated])
  qed
qed

lemma leaf_descend:
  "leaf_test m bl q \<Longrightarrow> contains b bl \<Longrightarrow> normalized bl \<Longrightarrow> descend_test m b q"
  by (cases m; cases bl; cases q; cases b) auto

lemma get_node_exact:
  "tight d s node \<Longrightarrow> leaves d s node = Inr lvs \<Longrightarrow> \<forall>x\<in>set lvs. normalized (fst x) \<Longrightarrow>
   get_node d s node q v m =
     Inr (map (\<lambda>(b, c). (c, b)) (filter (\<lambda>(b, c). value_test v c \<and> leaf_test m b q) lvs))"
proof (induction d arbitrary: node lvs)
  case 0
  then show ?case by simp
next
  case (Suc d)
  obtain h a where node: "node = (h, a)" by (cases node)
  let ?P = "\<lambda>(b, c). value_test v c \<and> leaf_test m b q"
  let ?h = "\<lambda>ys. map (\<lambda>(b, c). (c, b)) (filter ?P ys)"
  let ?f = "\<lambda>(mbr, child).
       if h \<noteq> 0 then
         (case child of
            Child h a \<Rightarrow> leaves d s (h, a)
          | Val _ \<Rightarrow> Inl TypeError)
       else Inr [(mbr, child)]"
  let ?g = "\<lambda>(mbr_node, contents_node).
       if h \<noteq> 0 then
         (if descend_test m mbr_node q
          then (case contents_node of
                  Child h a \<Rightarrow> get_node d s (h, a) q v m
                | Val _ \<Rightarrow> Inl TypeError)
          else Inr [])
       else
         (if value_test v contents_node \<and> leaf_test m mbr_node q
          then Inr [(contents_node, mbr_node)]
          else Inr [])"
  from Suc.prems(2) node have f: "collect (map ?f (deref s a)) = Inr lvs" by simp
  have step: "?g x = Inr (?h ys)" if x: "x \<in> set (deref s a)" and fx: "?f x = Inr ys" for x ys
  proof -
    obtain bi ci where xe: "x = (bi, ci)" by (cases x)
    show ?thesis
    proof (cases "h = 0")
      case True
      with fx xe show ?thesis by auto
    next
      case False
      from fx xe False obtain hi ai where ci: "ci = Child hi ai"
        and lv: "leaves d s (hi, ai) = Inr ys"
        by (cases ci) auto
      from Suc.prems(1) node False x xe ci
      have t: "calculate_mbr (deref s ai) = Some bi" "tight d s (hi, ai)"
        by (auto simp: list_all_iff)
      from collect_map_elem [OF f x] fx have sub: "set ys \<subseteq> set lvs" by auto
      with Suc.prems(3) have norm: "\<forall>x\<in>set ys. normalized (fst x)" by auto
      from Suc.IH [OF t(2) lv norm] have ih: "get_node d s (hi, ai) q v m = Inr (?h ys)" .
      show ?thesis
      proof (cases "descend_test m bi q")
        case True
        with ih xe ci False show ?thesis by simp
      next
        case nd: False
        have "\<not> ?P y" if y: "y \<in> set ys" for y
        proof
          assume p: "?P y"
          from leaves_contained [OF t(2) lv t(1) y] have "contains bi (fst y)" .
          moreover from p have "leaf_test m (fst y) q" by (cases y) simp
          moreover from norm y have "normalized (fst y)" by simp
          ultimately have "descend_test m bi q" using leaf_descend by blast
          with nd show False by blast
        qed
        then have "filter ?P ys = []" by (simp add: filter_empty_conv)
        with nd xe False show ?thesis
          by (simp del: descend_test.simps leaf_test.simps value_test.simps)
      qed
    qed
  qed
  have "collect (map ?g (deref s a)) = Inr (?h lvs)"
    by (rule collect_map_transfer [OF f step]) simp_all
  with node show ?case by simp
qed


lemma collect_map_if:
  "collect (map (\<lambda>x. if P x then f x else Inr []) xs) = collect (map f (filter P xs))"
proof (induction xs)
  case Nil
  then show ?case by simp
next
  case (Cons a xs)
  then show ?case by (auto simp: collect_Cons split: sum.splits)
qed

lemma get_node_pruned:
  "height \<noteq> 0 \<Longrightarrow>
   get_node (Suc d) s (height, data) q v m =
     collect (map (\<lambda>(b, c). case c of Child h a \<Rightarrow> get_node d s (h, a) q v m | Val _ \<Rightarrow> Inl TypeError)
       (filter (\<lambda>(b, c). descend_test m b q) (deref s data)))"
proof -
  assume h: "height \<noteq> 0"
  let ?f = "\<lambda>(b, c). case c of Child h a \<Rightarrow> get_node d s (h, a) q v m | Val _ \<Rightarrow> Inl TypeError"
  let ?P = "\<lambda>(b, c). descend_test m b q"
  have "(\<lambda>(mbr_node, contents_node).
       if height \<noteq> 0 then
         (if descend_test m mbr_node q
          then (case contents_node of
                  Child h a \<Rightarrow> get_node d s (h, a) q v m
                | Val _ \<Rightarrow> Inl TypeError)
          else Inr [])
       else
         (if value_test v contents_node \<and> leaf_test m mbr_node q
          then Inr [(contents_node, mbr_node)]
          else Inr [])) = (\<lambda>x. if ?P x then ?f x else Inr [])"
    using h by (auto simp: fun_eq_iff simp del: descend_test.simps)
  then have "get_node (Suc d) s (height, data) q v m
      = collect (map (\<lambda>x. if ?P x then ?f x else Inr []) (deref s data))"
    by (simp only: get_node.simps)
  then show ?thesis by (simp only: collect_map_if)
qed

text \<open>
  C4. Let the boxes below \<open>node\<close> be tight (invariant 2) and let the stored leaf boxes be
  normalized, as \<open>add_point\<close> and \<open>add_box\<close> store them. Then a query yields, in the
  order of the leaves, exactly the leaf entries whose value passes the value filter
  (no filter, or a value equal to it) and whose box passes the test of the match type:
  EQUAL, the stored box equals the query box; CONTAINED, the stored box contains the
  query box; CONTAINS, the query box contains the stored box; INTERSECT, the boxes
  intersect. At an internal node only the children whose box contains the query box
  (EQUAL, CONTAINED) or intersects it (CONTAINS, INTERSECT) are visited: the others
  contribute nothing, not even an error.
\<close>

theorem get_node_yields_matching_leaves:
  assumes "tight d s node" and "leaves d s node = Inr lvs"
    and "list_all (\<lambda>x. normalized (fst x)) lvs"
  shows "get_node d s node q v m =
           Inr (map (\<lambda>(b, c). (c, b))
             (filter (\<lambda>(b, c). (v = None \<or> c = Val v) \<and>
                (case m of EQUAL \<Rightarrow> b = q | CONTAINED \<Rightarrow> contains b q
                 | CONTAINS \<Rightarrow> contains q b | INTERSECT \<Rightarrow> intersect q b)) lvs))
         \<and> (\<forall>height data d'. height \<noteq> 0 \<longrightarrow>
              get_node (Suc d') s (height, data) q v m =
                collect (map (\<lambda>(b, c). case c of Child h a \<Rightarrow> get_node d' s (h, a) q v m
                                        | Val _ \<Rightarrow> Inl TypeError)
                  (filter (\<lambda>(b, c). case m of EQUAL \<Rightarrow> contains b q | CONTAINED \<Rightarrow> contains b q
                                     | CONTAINS \<Rightarrow> intersect b q | INTERSECT \<Rightarrow> intersect b q)
                    (deref s data))))"
proof -
  have p: "(\<lambda>(b, c). value_test v c \<and> leaf_test m b q) =
        (\<lambda>(b, c :: 'a contents). (v = None \<or> c = Val v) \<and>
                (case m of EQUAL \<Rightarrow> b = q | CONTAINED \<Rightarrow> contains b q
                 | CONTAINS \<Rightarrow> contains q b | INTERSECT \<Rightarrow> intersect q b))"
    by (cases m) (auto simp: fun_eq_iff)
  have d: "(\<lambda>(b, c :: 'a contents). descend_test m b q) =
        (\<lambda>(b, c). case m of EQUAL \<Rightarrow> contains b q | CONTAINED \<Rightarrow> contains b q
                                     | CONTAINS \<Rightarrow> intersect b q | INTERSECT \<Rightarrow> intersect b q)"
    by (cases m) (auto simp: fun_eq_iff)
  from assms(3) have "\<forall>x\<in>set lvs. normalized (fst x)" by (simp add: list_all_iff)
  from get_node_exact [OF assms(1,2) this, of q v m] have "get_node d s node q v m =
     Inr (map (\<lambda>(b, c). (c, b)) (filter (\<lambda>(b, c). value_test v c \<and> leaf_test m b q) lvs))" .
  then have a: "get_node d s node q v m =
           Inr (map (\<lambda>(b, c). (c, b))
             (filter (\<lambda>(b, c). (v = None \<or> c = Val v) \<and>
                (case m of EQUAL \<Rightarrow> b = q | CONTAINED \<Rightarrow> contains b q
                 | CONTAINS \<Rightarrow> contains q b | INTERSECT \<Rightarrow> intersect q b)) lvs))"
    unfolding p .
  have b: "get_node (Suc d') s (height, data) q v m =
                collect (map (\<lambda>(b, c). case c of Child h a \<Rightarrow> get_node d' s (h, a) q v m
                                        | Val _ \<Rightarrow> Inl TypeError)
                  (filter (\<lambda>(b, c). case m of EQUAL \<Rightarrow> contains b q | CONTAINED \<Rightarrow> contains b q
                                     | CONTAINS \<Rightarrow> intersect b q | INTERSECT \<Rightarrow> intersect b q)
                    (deref s data)))" if "height \<noteq> 0" for height data d'
    using get_node_pruned [OF that, of d' s data q v m] unfolding d .
  from a b show ?thesis by blast
qed

theorem get_node_yields_matching_leaves_witness:
  "get_node 2
     [[((0, 0, 0, 0), Val (Some ''a''))],
      [((1, 1, 2, 2), Val (Some ''b'')), ((2, 2, 5, 5), Val (Some ''c''))],
      [((0, 0, 0, 0), Child 0 0), ((1, 1, 5, 5), Child 0 1)]]
     (1, 2) (0, 0, 3, 3) None CONTAINS
   = Inr [(Val (Some ''a''), (0, 0, 0, 0)), (Val (Some ''b''), (1, 1, 2, 2))]"
proof -
  let ?s = "[[((0, 0, 0, 0), Val (Some ''a''))],
      [((1, 1, 2, 2), Val (Some ''b'')), ((2, 2, 5, 5), Val (Some ''c''))],
      [((0, 0, 0, 0), Child 0 0), ((1, 1, 5, 5), Child 0 1)]]"
  let ?lvs = "[((0, 0, 0, 0), Val (Some ''a'')), ((1, 1, 2, 2), Val (Some ''b'')),
      ((2, 2, 5, 5), Val (Some ''c''))]"
  have h1: "tight 2 ?s (1, 2)" by code_simp
  have h2: "leaves 2 ?s (1, 2) = Inr ?lvs" by code_simp
  have h3: "list_all (\<lambda>x. normalized (fst x)) ?lvs" by simp
  from get_node_yields_matching_leaves [OF h1 h2 h3, of "(0, 0, 3, 3)" None CONTAINS]
  show ?thesis by simp
qed

subsection \<open>The value filter\<close>




lemma delete_entries_leaf_missing:
  "b \<notin> fst ` set rest \<Longrightarrow> delete_entries d t 0 a i rest b v = (Inr None, t)"
  by (induction rest arbitrary: i) auto













subsection \<open>The empty tree\<close>

text \<open>
  C10. On a tree without a root, \<open>get_point\<close> and \<open>get_box\<close> yield the empty sequence,
  and \<open>delete_point\<close> and \<open>delete_box\<close> return 0 and leave the tree as it is, for every
  match type and value filter; none of them raises.
\<close>

theorem empty_tree_get_delete:
  "t_root t = None \<Longrightarrow>
     get_point d t x y v m = Inr [] \<and> get_box d t x1 y1 x2 y2 v m = Inr [] \<and>
     delete_point (Suc n) d t x y v m = Some (Inr 0, t) \<and>
     delete_box (Suc n) d t x1 y1 x2 y2 v m = Some (Inr 0, t)"
  by (simp add: get_point_def get_box_def get_normalized_box_def delete_point_def delete_box_def
      delete_normalized_mbr_def start_def)

theorem empty_tree_get_delete_witness:
  "get_point 9 \<lparr>t_max = 8, t_min = 4, t_root = None, t_size = 0, t_store = []\<rparr> 1 2 (Some ''a'') INTERSECT
     = Inr []
   \<and> delete_box 1 9 \<lparr>t_max = 8, t_min = 4, t_root = None, t_size = 0, t_store = []\<rparr> 0 0 5 5
       (None :: string option) CONTAINS
     = Some (Inr 0, \<lparr>t_max = 8, t_min = 4, t_root = None, t_size = 0, t_store = []\<rparr>)"
proof -
  let ?t = "\<lparr>t_max = 8, t_min = 4, t_root = None, t_size = 0, t_store = ([] :: string store)\<rparr>"
  have h: "t_root ?t = None" by simp
  from empty_tree_get_delete [OF h, of 9 1 2 "Some ''a''" INTERSECT]
  have a: "get_point 9 ?t 1 2 (Some ''a'') INTERSECT = Inr []" by blast
  from empty_tree_get_delete [OF h, of 9 0 0 None CONTAINS 0 0 5 5 0]
  have b: "delete_box (Suc 0) 9 ?t 0 0 5 5 None CONTAINS = Some (Inr 0, ?t)" by blast
  from a b show ?thesis by simp
qed

end
